theory Spec2Isabelle
  imports Complex_Main
begin

section \<open>Python strings\<close>

text \<open>
  A Python \<^verbatim>\<open>str\<close> is a sequence of code points. It is modelled as a \<^typ>\<open>string\<close>
  whose characters stand for the code points 0..255 (ASCII and the Latin-1 block);
  texts with code points above 255 are outside the model. On that range the string
  methods the classifier calls (\<^verbatim>\<open>lower\<close>, \<^verbatim>\<open>isalpha\<close>, \<^verbatim>\<open>isdigit\<close>, \<^verbatim>\<open>strip\<close>)
  are the functions below.
\<close>

definition code_point :: "char \<Rightarrow> nat" where
  "code_point c = of_char c"

definition lower_char :: "char \<Rightarrow> char" where
  "lower_char c =
     (let n = code_point c in
      if (65 \<le> n \<and> n \<le> 90) \<or> (192 \<le> n \<and> n \<le> 214) \<or> (216 \<le> n \<and> n \<le> 222)
      then char_of (n + 32) else c)"

definition isalpha_char :: "char \<Rightarrow> bool" where
  "isalpha_char c =
     (let n = code_point c in
      (65 \<le> n \<and> n \<le> 90) \<or> (97 \<le> n \<and> n \<le> 122) \<or> n = 170 \<or> n = 181 \<or> n = 186 \<or>
      (192 \<le> n \<and> n \<le> 214) \<or> (216 \<le> n \<and> n \<le> 246) \<or> (248 \<le> n \<and> n \<le> 255))"

definition isdigit_char :: "char \<Rightarrow> bool" where
  "isdigit_char c =
     (let n = code_point c in
      (48 \<le> n \<and> n \<le> 57) \<or> n = 178 \<or> n = 179 \<or> n = 185)"

definition isspace_char :: "char \<Rightarrow> bool" where
  "isspace_char c =
     (let n = code_point c in
      (9 \<le> n \<and> n \<le> 13) \<or> (28 \<le> n \<and> n \<le> 32) \<or> n = 133 \<or> n = 160)"

text \<open>\<^verbatim>\<open>s.lower()\<close>\<close>

definition lower :: "string \<Rightarrow> string" where
  "lower s = map lower_char s"

text \<open>\<^verbatim>\<open>s.isalpha()\<close>: every character is alphabetic and there is at least one.\<close>

definition isalpha :: "string \<Rightarrow> bool" where
  "isalpha s = (s \<noteq> [] \<and> list_all isalpha_char s)"

text \<open>\<^verbatim>\<open>s.strip()\<close>: leading and trailing whitespace removed.\<close>

definition strip :: "string \<Rightarrow> string" where
  "strip s = rev (dropWhile isspace_char (rev (dropWhile isspace_char s)))"

section \<open>Errors and the external collaborators\<close>

text \<open>
  The exceptions the methods can raise: the division by a zero word count, an index
  into an empty sequence, and the error of the regular-expression engine on a pattern
  it cannot compile (it carries the pattern).
\<close>

datatype py_error = ZeroDivisionError | IndexError | PatternError string

text \<open>
  The classifier calls NLTK's sentence splitter, word tokenizer, part-of-speech tagger
  and WordNet lemmatizer, the CMU pronouncing dictionary (the module-level \<^verbatim>\<open>p_dict\<close>)
  and Python's \<^verbatim>\<open>re.search\<close>. None of them is code of this repository: they are the
  fields of a record that every method takes. A pronouncing-dictionary entry is the list
  of the pronunciations of a word, each a list of phoneme codes. \<^verbatim>\<open>re_search\<close> gets the
  pattern, the text and whether \<^verbatim>\<open>re.IGNORECASE\<close> is set; it raises on a pattern it
  cannot compile, and returns the matched text of the first match, or \<^verbatim>\<open>None\<close>.

  Python's floats are binary64 values; every float operation returns the exact real
  result rounded to a binary64 value. The rounding is the field \<open>fl\<close>: the float
  operation \<^verbatim>\<open>a + b\<close> is \<open>fl (a + b)\<close>, a literal \<^verbatim>\<open>84.6\<close> is \<open>fl 84.6\<close>, and so on.
\<close>

record externals =
  sent_tokenize :: "string \<Rightarrow> string list"
  word_tokenize :: "string \<Rightarrow> string list"
  pos_tag :: "string list \<Rightarrow> (string \<times> string) list"
  wn_lemmatize :: "string \<Rightarrow> string \<Rightarrow> string"
  p_dict :: "string \<rightharpoonup> string list list"
  re_search :: "string \<Rightarrow> string \<Rightarrow> bool \<Rightarrow> py_error + string option"
  fl :: "real \<Rightarrow> real"

section \<open>The classifier\<close>

text \<open>
  The instance state: the text (\<^verbatim>\<open>__text\<close>) and the vowel set (\<^verbatim>\<open>__vowels\<close>); the
  lemmatizer object is among the external collaborators. A view takes the instance and
  returns the sequence it yields together with the instance as the call leaves it. The
  other methods are given by their result, a value or the exception raised; where they
  call a view twice, the second call runs on the instance the first one left.
\<close>

record text_classifier =
  doc_text :: string
  vowels :: "char set"

type_synonym 'a call = "text_classifier \<Rightarrow> 'a \<times> text_classifier"

text \<open>\<^verbatim>\<open>__init__\<close>\<close>

definition init :: "string \<Rightarrow> text_classifier" where
  "init t =
     \<lparr>doc_text = t,
      vowels = {CHR ''a'', CHR ''e'', CHR ''i'', CHR ''o'', CHR ''u'', CHR ''y''}\<rparr>"

text \<open>\<^verbatim>\<open>__lemmatize\<close>: the variable \<^verbatim>\<open>lemma\<close> is assigned once, then once more under the test.\<close>

definition lemmatize :: "externals \<Rightarrow> string \<Rightarrow> string" where
  "lemmatize env word =
     (let lemma = wn_lemmatize env word ''v'';
          lemma = (if lemma = word then wn_lemmatize env word ''n'' else lemma)
      in lemma)"

subsection \<open>The preprocessing generator\<close>

text \<open>
  \<^verbatim>\<open>__preprocess_text\<close> yields strings, pairs, lists of strings or lists of pairs,
  depending on its flags \<^verbatim>\<open>tagged\<close> and \<^verbatim>\<open>is_sent\<close>. The model has one function for each
  value of \<^verbatim>\<open>tagged\<close> that computes what the loop body makes of one sentence, and one
  function for each value of \<^verbatim>\<open>is_sent\<close> that runs the loop over the sentences and
  yields; the sequence a view returns is the list of everything its generator yields.
\<close>

text \<open>Line 51: the tokens of a sentence, stripped, the empty ones dropped.\<close>

definition tokenized_sent :: "externals \<Rightarrow> string \<Rightarrow> string list" where
  "tokenized_sent env sent = [strip word. word \<leftarrow> word_tokenize env sent, strip word \<noteq> []]"

text \<open>Lines 53 to 58 with \<^verbatim>\<open>tagged=False\<close>.\<close>

definition untagged_body :: "externals \<Rightarrow> bool \<Rightarrow> string \<Rightarrow> string list" where
  "untagged_body env lemmatized sent =
     (let ts = tokenized_sent env sent in
      if lemmatized then map (lemmatize env) ts else ts)"

text \<open>Lines 53 to 58 with \<^verbatim>\<open>tagged=True\<close>.\<close>

definition tagged_body :: "externals \<Rightarrow> bool \<Rightarrow> string \<Rightarrow> (string \<times> string) list" where
  "tagged_body env lemmatized sent =
     (let ts = pos_tag env (tokenized_sent env sent) in
      if lemmatized then map (\<lambda>x. (lemmatize env (fst x), snd x)) ts else ts)"

text \<open>The loop with \<^verbatim>\<open>is_sent=True\<close>: one item for each sentence.\<close>

definition yield_sents :: "externals \<Rightarrow> (string \<Rightarrow> 'a list) \<Rightarrow> 'a list list call" where
  "yield_sents env body self = (map body (sent_tokenize env (doc_text self)), self)"

text \<open>The loop with \<^verbatim>\<open>is_sent=False\<close>: one item for each token of each sentence.\<close>

definition yield_words :: "externals \<Rightarrow> (string \<Rightarrow> 'a list) \<Rightarrow> 'a list call" where
  "yield_words env body self = (concat (map body (sent_tokenize env (doc_text self))), self)"

subsection \<open>The four views\<close>

definition sents :: "externals \<Rightarrow> bool \<Rightarrow> string list list call" where
  "sents env lemmatized = yield_sents env (untagged_body env lemmatized)"

definition tagged_sents :: "externals \<Rightarrow> bool \<Rightarrow> (string \<times> string) list list call" where
  "tagged_sents env lemmatized = yield_sents env (tagged_body env lemmatized)"

definition words :: "externals \<Rightarrow> bool \<Rightarrow> string list call" where
  "words env lemmatized = yield_words env (untagged_body env lemmatized)"

definition tagged_words :: "externals \<Rightarrow> bool \<Rightarrow> (string \<times> string) list call" where
  "tagged_words env lemmatized = yield_words env (tagged_body env lemmatized)"

subsection \<open>Syllables\<close>

text \<open>
  \<^verbatim>\<open>p_dict[word][0]\<close> and \<^verbatim>\<open>phone[-1]\<close>: the first pronunciation of an entry and the
  last character of a phoneme code. Python raises \<^verbatim>\<open>IndexError\<close> when there is none.
\<close>

fun first :: "'a list \<Rightarrow> py_error + 'a" where
  "first (pron # others) = Inr pron"
| "first [] = Inl IndexError"

definition last_char :: "string \<Rightarrow> py_error + char" where
  "last_char s = (if s = [] then Inl IndexError else Inr (last s))"

text \<open>
  \<^verbatim>\<open>filter(lambda phone: phone[-1].isdigit(), pron)\<close>, forced by \<^verbatim>\<open>list\<close>: the phonemes
  are tested from left to right, and the first empty one raises.
\<close>

fun filter_phones :: "string list \<Rightarrow> py_error + string list" where
  "filter_phones [] = Inr []"
| "filter_phones (phone # rest) =
     (case last_char phone of
        Inl e \<Rightarrow> Inl e
      | Inr c \<Rightarrow>
          (case filter_phones rest of
             Inl e \<Rightarrow> Inl e
           | Inr kept \<Rightarrow> Inr (if isdigit_char c then phone # kept else kept)))"

definition count_syllables :: "externals \<Rightarrow> text_classifier \<Rightarrow> string \<Rightarrow> py_error + int" where
  "count_syllables env self word0 =
     (let word = lower word0 in
      case p_dict env word of
        Some prons \<Rightarrow>
          (case first prons of
             Inl e \<Rightarrow> Inl e
           | Inr pron \<Rightarrow>
               (case filter_phones pron of
                  Inl e \<Rightarrow> Inl e
                | Inr iterator \<Rightarrow> Inr (int (length iterator))))
      | None \<Rightarrow> Inr (int (length (filter (\<lambda>letter. letter \<in> vowels self) word))))"

subsection \<open>Float arithmetic\<close>

definition float_of_int :: "externals \<Rightarrow> int \<Rightarrow> real" where
  "float_of_int env n = fl env (of_int n)"

definition fadd :: "externals \<Rightarrow> real \<Rightarrow> real \<Rightarrow> real" where
  "fadd env a b = fl env (a + b)"

definition fsub :: "externals \<Rightarrow> real \<Rightarrow> real \<Rightarrow> real" where
  "fsub env a b = fl env (a - b)"

definition fmul :: "externals \<Rightarrow> real \<Rightarrow> real \<Rightarrow> real" where
  "fmul env a b = fl env (a * b)"

text \<open>\<^verbatim>\<open>a / b\<close> on two ints: the correctly rounded quotient, or the error.\<close>

definition int_truediv :: "externals \<Rightarrow> int \<Rightarrow> int \<Rightarrow> py_error + real" where
  "int_truediv env a b =
     (if b = 0 then Inl ZeroDivisionError else Inr (fl env (of_int a / of_int b)))"

text \<open>
  \<^verbatim>\<open>round(x, ndigits)\<close> on a float: the exact value of \<open>x\<close> is rounded to \<open>ndigits\<close>
  decimals, a tie to the even neighbour, and the decimal is read back as a float.
\<close>

definition round_half_even :: "real \<Rightarrow> int" where
  "round_half_even x =
     (let f = \<lfloor>x\<rfloor>; d = x - of_int f in
      if d < 1 / 2 then f
      else if 1 / 2 < d then f + 1
      else if even f then f else f + 1)"

definition py_round :: "externals \<Rightarrow> real \<Rightarrow> nat \<Rightarrow> real" where
  "py_round env x ndigits = fl env (of_int (round_half_even (x * 10 ^ ndigits)) / 10 ^ ndigits)"

subsection \<open>Reading ease\<close>

text \<open>\<^verbatim>\<open>[self.count_syllables(word) for word in words]\<close>\<close>

fun count_all :: "externals \<Rightarrow> text_classifier \<Rightarrow> string list \<Rightarrow> py_error + int list" where
  "count_all env self [] = Inr []"
| "count_all env self (word # rest) =
     (case count_syllables env self word of
        Inl e \<Rightarrow> Inl e
      | Inr n \<Rightarrow>
          (case count_all env self rest of
             Inl e \<Rightarrow> Inl e
           | Inr ns \<Rightarrow> Inr (n # ns)))"

text \<open>The right-hand side of line 153, from the words and their syllable counts.\<close>

definition flesch :: "externals \<Rightarrow> string list \<Rightarrow> int list \<Rightarrow> py_error + real" where
  "flesch env ws syllables =
     (case int_truediv env (sum_list syllables) (int (length ws)) of
        Inl e \<Rightarrow> Inl e
      | Inr q \<Rightarrow>
          Inr (fsub env
                 (fsub env (fl env 206.835) (fmul env (fl env 1.015) (float_of_int env (int (length ws)))))
                 (fmul env (fl env 84.6) q)))"

text \<open>The loop of lines 149 to 153 over the sentences, \<^verbatim>\<open>reading_ease\<close> as accumulator.\<close>

fun reading_ease_loop ::
  "externals \<Rightarrow> text_classifier \<Rightarrow> real \<Rightarrow> string list list \<Rightarrow> py_error + real" where
  "reading_ease_loop env self reading_ease [] = Inr reading_ease"
| "reading_ease_loop env self reading_ease (sent # rest) =
     (let ws = filter isalpha sent in
      if ws \<noteq> [] then
        (case count_all env self ws of
           Inl e \<Rightarrow> Inl e
         | Inr syllables \<Rightarrow>
             (case flesch env ws syllables of
                Inl e \<Rightarrow> Inl e
              | Inr v \<Rightarrow> reading_ease_loop env self (fadd env reading_ease v) rest))
      else reading_ease_loop env self reading_ease rest)"

definition calculate_sentence_reading_ease :: "externals \<Rightarrow> text_classifier \<Rightarrow> py_error + real" where
  "calculate_sentence_reading_ease env self =
     (let (ss, self1) = sents env False self in reading_ease_loop env self1 0 ss)"

subsection \<open>Lexical density, word frequency, type-token ratio\<close>

definition calculate_lexical_density_by_tags ::
  "externals \<Rightarrow> text_classifier \<Rightarrow> string set \<Rightarrow> py_error + real" where
  "calculate_lexical_density_by_tags env self tags_to_search =
     (let (tw1, self1) = tagged_words env False self;
          total_tags = sum_list [1. (word, tag) \<leftarrow> tw1, tag \<in> tags_to_search];
          (tw2, self2) = tagged_words env False self1;
          total_words = int (length tw2)
      in case int_truediv env total_tags total_words of
           Inl e \<Rightarrow> Inl e
         | Inr q \<Rightarrow> Inr (py_round env (fmul env q (float_of_int env 100)) 3))"

definition calculate_words_frequency ::
  "externals \<Rightarrow> text_classifier \<Rightarrow> string set \<Rightarrow> py_error + real" where
  "calculate_words_frequency env self words_to_search =
     (let (ws1, self1) = words env False self;
          total_peculiar_words = sum_list [1. word \<leftarrow> ws1, word \<in> words_to_search];
          (ws2, self2) = words env False self1;
          total_words = int (length ws2)
      in case int_truediv env total_peculiar_words total_words of
           Inl e \<Rightarrow> Inl e
         | Inr q \<Rightarrow> Inr (py_round env (fmul env q (float_of_int env 1000)) 3))"

definition calculate_type_token_ratio :: "externals \<Rightarrow> text_classifier \<Rightarrow> py_error + real" where
  "calculate_type_token_ratio env self =
     (let (ws, self1) = words env True self;
          word_list = map lower ws
      in int_truediv env (int (card (set word_list))) (int (length word_list)))"

subsection \<open>Peculiar expressions\<close>

text \<open>\<^verbatim>\<open>bool(m)\<close> of a search result: a match object is true, \<^verbatim>\<open>None\<close> is false.\<close>

definition has_peculiar_expression ::
  "externals \<Rightarrow> text_classifier \<Rightarrow> string \<Rightarrow> py_error + bool" where
  "has_peculiar_expression env self expression =
     (case re_search env ([] @ expression @ []) (doc_text self) True of
        Inl e \<Rightarrow> Inl e
      | Inr m \<Rightarrow> Inr (m \<noteq> None))"

section \<open>Specification-side definitions\<close>

text \<open>
  The reading-ease score as the specification words it, to be compared with the loop:
  the syllables of a word, the value of one sentence from its alphabetic tokens
  (\<open>206.835 - 1.015 * n - 84.6 * (syllables / n)\<close>, in float arithmetic), the float sum
  of a list from the left, starting at \<open>0.0\<close>, and the sum of the values of the
  sentences that have an alphabetic token.
\<close>

definition syllables_of :: "externals \<Rightarrow> text_classifier \<Rightarrow> string \<Rightarrow> int" where
  "syllables_of env self word = (case count_syllables env self word of Inl e \<Rightarrow> 0 | Inr n \<Rightarrow> n)"

definition sentence_value :: "externals \<Rightarrow> text_classifier \<Rightarrow> string list \<Rightarrow> real" where
  "sentence_value env self ws =
     fsub env
       (fsub env (fl env 206.835) (fmul env (fl env 1.015) (fl env (real (length ws)))))
       (fmul env (fl env 84.6)
          (fl env (real_of_int (\<Sum>w\<leftarrow>ws. syllables_of env self w) / real (length ws))))"

definition float_sum :: "externals \<Rightarrow> real list \<Rightarrow> real" where
  "float_sum env vs = foldl (fadd env) 0 vs"

definition alphabetic_sents :: "externals \<Rightarrow> text_classifier \<Rightarrow> string list list" where
  "alphabetic_sents env self =
     filter (\<lambda>ws. ws \<noteq> []) (map (filter isalpha) (fst (sents env False self)))"

definition reading_ease_spec :: "externals \<Rightarrow> text_classifier \<Rightarrow> real" where
  "reading_ease_spec env self = float_sum env (map (sentence_value env self) (alphabetic_sents env self))"

text \<open>
  What the classifier expects of the pronouncing dictionary: every entry has a first
  pronunciation, and no phoneme code of it is the empty string.
\<close>

definition dict_well_formed :: "externals \<Rightarrow> bool" where
  "dict_well_formed env =
     (\<forall>w prons. p_dict env w = Some prons \<longrightarrow> prons \<noteq> [] \<and> [] \<notin> set (hd prons))"

section \<open>A fixture\<close>

text \<open>
  Small collaborators to run the methods on: a splitter and a tokenizer that know one
  text, a tagger with two tags, a lemmatizer that knows one noun and one verb, a
  dictionary with one entry, exact arithmetic, and a search for literal patterns that
  rejects a pattern with an opening parenthesis.
\<close>

fun find_literal :: "string \<Rightarrow> string \<Rightarrow> string option" where
  "find_literal p [] = (if p = [] then Some [] else None)"
| "find_literal p (c # cs) =
     (if take (length p) (c # cs) = p then Some p else find_literal p cs)"

definition demo_search :: "string \<Rightarrow> string \<Rightarrow> bool \<Rightarrow> py_error + string option" where
  "demo_search p t ignorecase =
     (if CHR ''('' \<in> set p then Inl (PatternError p)
      else if ignorecase then Inr (find_literal (lower p) (lower t))
      else Inr (find_literal p t))"

definition demo_env :: externals where
  "demo_env =
     \<lparr>sent_tokenize = (\<lambda>t. if t = [] then [] else if t = ''Cats run. 42 !'' then [''Cats run.'', ''42 !''] else [t]),
      word_tokenize = (\<lambda>s. if s = ''Cats run.'' then [''Cats'', ''run'', ''.'']
                            else if s = ''42 !'' then [''42'', '' '', ''!''] else [s]),
      pos_tag = map (\<lambda>w. (w, if isalpha w then ''NN'' else ''.'')),
      wn_lemmatize = (\<lambda>w p. if w = ''Cats'' \<and> p = ''n'' then ''Cat''
                             else if w = ''running'' \<and> p = ''v'' then ''run'' else w),
      p_dict = [''cats'' \<mapsto> [[''K'', ''AE1'', ''T'', ''S'']]],
      re_search = demo_search,
      fl = (\<lambda>x. x)\<rparr>"

section \<open>Lemmas\<close>

subsection \<open>Strings\<close>

lemma lower_char_idem: "lower_char (lower_char c) = lower_char c"
  by (auto simp: lower_char_def code_point_def Let_def)

lemma lower_idem: "lower (lower s) = lower s"
  by (simp add: lower_def lower_char_idem)

subsection \<open>Syllables\<close>

lemma filter_phones_ok:
  "[] \<notin> set pron \<Longrightarrow>
   filter_phones pron = Inr (filter (\<lambda>phone. isdigit_char (last phone)) pron)"
  by (induction pron) (auto simp: last_char_def)

lemma count_syllables_known:
  "p_dict env (lower word) = Some prons \<Longrightarrow> prons \<noteq> [] \<Longrightarrow> [] \<notin> set (hd prons) \<Longrightarrow>
   count_syllables env self word =
     Inr (int (length (filter (\<lambda>phone. isdigit_char (last phone)) (hd prons))))"
  by (cases prons) (simp_all add: count_syllables_def filter_phones_ok)

lemma count_syllables_unknown:
  "p_dict env (lower word) = None \<Longrightarrow>
   count_syllables env self word =
     Inr (int (length (filter (\<lambda>letter. letter \<in> vowels self) (lower word))))"
  by (simp add: count_syllables_def)

lemma count_syllables_nonneg:
  "count_syllables env self word = Inr n \<Longrightarrow> 0 \<le> n"
  by (auto simp: count_syllables_def Let_def split: option.splits sum.splits)

lemma count_syllables_total:
  assumes "dict_well_formed env"
  shows "count_syllables env self word = Inr (syllables_of env self word)"
proof (cases "p_dict env (lower word)")
  case None
  then show ?thesis by (simp add: syllables_of_def count_syllables_unknown)
next
  case (Some prons)
  with assms have "prons \<noteq> []" "[] \<notin> set (hd prons)"
    by (auto simp: dict_well_formed_def)
  with Some show ?thesis by (simp add: syllables_of_def count_syllables_known)
qed

lemma count_all_total:
  assumes "dict_well_formed env"
  shows "count_all env self ws = Inr (map (syllables_of env self) ws)"
  by (induction ws) (simp_all add: count_syllables_total [OF assms])

subsection \<open>The reading-ease loop\<close>

lemma flesch_value:
  "ws \<noteq> [] \<Longrightarrow>
   flesch env ws (map (syllables_of env self) ws) = Inr (sentence_value env self ws)"
  by (simp add: flesch_def int_truediv_def sentence_value_def float_of_int_def)

text \<open>The accumulator changes from sentence to sentence, so it is generalised.\<close>

lemma reading_ease_loop_sum:
  assumes "dict_well_formed env"
  shows "reading_ease_loop env self acc ss =
         Inr (foldl (fadd env) acc
                (map (sentence_value env self)
                   (filter (\<lambda>ws. ws \<noteq> []) (map (filter isalpha) ss))))"
proof (induction ss arbitrary: acc)
  case Nil
  then show ?case by simp
next
  case (Cons sent rest)
  show ?case
  proof (cases "filter isalpha sent = []")
    case True
    then show ?thesis by (simp add: Cons.IH)
  next
    case False
    then show ?thesis
      by (simp add: Cons.IH count_all_total [OF assms] flesch_value)
  qed
qed

lemma foldl_plus_sum_list: "foldl (+) (a::real) vs = a + sum_list vs"
  by (induction vs arbitrary: a) simp_all

lemma float_sum_exact:
  assumes "fl env = (\<lambda>x. x)"
  shows "float_sum env vs = sum_list vs"
proof -
  from assms have "fadd env = (+)" by (simp add: fadd_def fun_eq_iff)
  then show ?thesis by (simp add: float_sum_def foldl_plus_sum_list)
qed

lemma sentence_value_exact:
  "fl env = (\<lambda>x. x) \<Longrightarrow>
   sentence_value env self ws =
     206.835 - 1.015 * real (length ws)
       - 84.6 * (real_of_int (\<Sum>w\<leftarrow>ws. syllables_of env self w) / real (length ws))"
  by (simp add: sentence_value_def fsub_def fmul_def)

subsection \<open>Documents without words\<close>

lemma int_truediv_zero: "int_truediv env a 0 = Inl ZeroDivisionError"
  by (simp add: int_truediv_def)

lemma no_words_no_tokens:
  assumes "fst (words env False self) = []"
  shows "\<forall>s \<in> set (sent_tokenize env (doc_text self)). tokenized_sent env s = []"
  using assms by (simp add: words_def yield_words_def untagged_body_def)

lemma no_words_plain:
  assumes "fst (words env False self) = []"
  shows "words env False self = ([], self)"
  using assms by (simp add: words_def yield_words_def)

lemma no_words_lemmatized:
  assumes "fst (words env False self) = []"
  shows "words env True self = ([], self)"
  using no_words_no_tokens [OF assms]
  by (simp add: words_def yield_words_def untagged_body_def)

lemma no_words_tagged:
  assumes "fst (words env False self) = []" and "pos_tag env [] = []"
  shows "tagged_words env False self = ([], self)"
  using no_words_no_tokens [OF assms(1)] assms(2)
  by (simp add: tagged_words_def yield_words_def tagged_body_def)

subsection \<open>Rounding and counting\<close>

lemma round_half_even_nonneg: "0 \<le> x \<Longrightarrow> 0 \<le> round_half_even x"
  by (auto simp: round_half_even_def Let_def)

lemma round_half_even_le:
  assumes "x \<le> of_int k"
  shows "round_half_even x \<le> k"
proof (cases "x = of_int k")
  case True
  then show ?thesis by (simp add: round_half_even_def)
next
  case False
  with assms have "x < of_int k" by simp
  then have "\<lfloor>x\<rfloor> < k" by (simp add: floor_less_iff)
  then show ?thesis by (auto simp: round_half_even_def Let_def)
qed

lemma count_le_length:
  "0 \<le> sum_list [1::int. (word, tag) \<leftarrow> tw, tag \<in> tags] \<and>
   sum_list [1::int. (word, tag) \<leftarrow> tw, tag \<in> tags] \<le> int (length tw)"
  by (induction tw) auto

section \<open>The claims\<close>

text \<open>
  Claim C1, as the code has it: for a document with zero words (the tagger giving no
  pair for no token), \<^verbatim>\<open>calculate_lexical_density_by_tags\<close>, \<^verbatim>\<open>calculate_words_frequency\<close>
  and \<^verbatim>\<open>calculate_type_token_ratio\<close> each fail with the \<^verbatim>\<open>ZeroDivisionError\<close> of
  their division; no method raises an error of its own for an empty input.
\<close>

theorem empty_document_metrics_raise:
  assumes "fst (words env False self) = []" and "pos_tag env [] = []"
  shows "calculate_lexical_density_by_tags env self tags_to_search = Inl ZeroDivisionError \<and>
         calculate_words_frequency env self words_to_search = Inl ZeroDivisionError \<and>
         calculate_type_token_ratio env self = Inl ZeroDivisionError"
  using no_words_tagged [OF assms] no_words_plain [OF assms(1)] no_words_lemmatized [OF assms(1)]
  by (simp add: calculate_lexical_density_by_tags_def calculate_words_frequency_def
      calculate_type_token_ratio_def int_truediv_zero)

theorem empty_document_metrics_raise_witness:
  "fst (words demo_env False (init [])) = [] \<and> pos_tag demo_env [] = [] \<and>
   calculate_lexical_density_by_tags demo_env (init []) {''NN''} = Inl ZeroDivisionError \<and>
   calculate_words_frequency demo_env (init []) {''cats''} = Inl ZeroDivisionError \<and>
   calculate_type_token_ratio demo_env (init []) = Inl ZeroDivisionError"
proof -
  have w: "fst (words demo_env False (init [])) = []"
    by (simp add: words_def yield_words_def init_def demo_env_def)
  have p: "pos_tag demo_env [] = []"
    by (simp add: demo_env_def)
  from empty_document_metrics_raise [OF w p] w p show ?thesis by simp
qed

text \<open>
  Claim C1 as stated fails: on the empty document each of the three methods ends in
  the division's own \<^verbatim>\<open>ZeroDivisionError\<close>.
\<close>

theorem empty_document_division_trap:
  "calculate_lexical_density_by_tags demo_env (init []) {''NN''} = Inl ZeroDivisionError \<and>
   calculate_words_frequency demo_env (init []) {''cats''} = Inl ZeroDivisionError \<and>
   calculate_type_token_ratio demo_env (init []) = Inl ZeroDivisionError"
  by (simp add: calculate_lexical_density_by_tags_def calculate_words_frequency_def
      calculate_type_token_ratio_def tagged_words_def words_def yield_words_def init_def
      int_truediv_def demo_env_def)

text \<open>
  Claim C2: with a well-formed pronouncing dictionary, \<^verbatim>\<open>calculate_sentence_reading_ease\<close>
  returns the float sum, from the first sentence on, of the values
  \<open>206.835 - 1.015 * n - 84.6 * (syllables / n)\<close> of the sentences that have an
  alphabetic token, each computed from the \<open>n\<close> alphabetic tokens of its sentence alone;
  a sentence without an alphabetic token adds nothing. In exact arithmetic that is the
  sum of the formula over those sentences. The empty document, which the splitter
  gives no sentence, yields \<open>0.0\<close>.
\<close>

theorem reading_ease_sum:
  assumes "dict_well_formed env"
  shows "calculate_sentence_reading_ease env self = Inr (reading_ease_spec env self) \<and>
         (fl env = (\<lambda>x. x) \<longrightarrow>
            reading_ease_spec env self =
              (\<Sum>ws\<leftarrow>alphabetic_sents env self.
                 206.835 - 1.015 * real (length ws)
                   - 84.6 * (real_of_int (\<Sum>w\<leftarrow>ws. syllables_of env self w) / real (length ws)))) \<and>
         (doc_text self = [] \<and> sent_tokenize env [] = [] \<longrightarrow>
            calculate_sentence_reading_ease env self = Inr 0)"
proof -
  have s: "sents env False self = (fst (sents env False self), self)"
    by (simp add: sents_def yield_sents_def)
  have 1: "calculate_sentence_reading_ease env self = Inr (reading_ease_spec env self)"
    unfolding calculate_sentence_reading_ease_def
    by (subst s) (simp add: reading_ease_loop_sum [OF assms] reading_ease_spec_def
        float_sum_def alphabetic_sents_def)
  have 2: "reading_ease_spec env self =
             (\<Sum>ws\<leftarrow>alphabetic_sents env self.
                206.835 - 1.015 * real (length ws)
                  - 84.6 * (real_of_int (\<Sum>w\<leftarrow>ws. syllables_of env self w) / real (length ws)))"
    if "fl env = (\<lambda>x. x)"
    using that
    by (simp add: reading_ease_spec_def float_sum_exact sentence_value_exact cong: map_cong)
  have 3: "calculate_sentence_reading_ease env self = Inr 0"
    if "doc_text self = [] \<and> sent_tokenize env [] = []"
    using that by (simp add: calculate_sentence_reading_ease_def sents_def yield_sents_def)
  from 1 2 3 show ?thesis by blast
qed

theorem reading_ease_sum_witness:
  "dict_well_formed demo_env \<and> fl demo_env = (\<lambda>x. x) \<and>
   alphabetic_sents demo_env (init ''Cats run. 42 !'') = [[''Cats'', ''run'']] \<and>
   calculate_sentence_reading_ease demo_env (init ''Cats run. 42 !'') = Inr (120.205) \<and>
   doc_text (init []) = [] \<and> sent_tokenize demo_env [] = [] \<and>
   calculate_sentence_reading_ease demo_env (init []) = Inr 0"
proof -
  have d: "dict_well_formed demo_env"
    by (auto simp: dict_well_formed_def demo_env_def split: if_splits)
  have f: "fl demo_env = (\<lambda>x. x)"
    by (simp add: demo_env_def)
  have e: "doc_text (init []) = [] \<and> sent_tokenize demo_env [] = []"
    by (simp add: init_def demo_env_def)
  have a: "alphabetic_sents demo_env (init ''Cats run. 42 !'') = [[''Cats'', ''run'']]"
    by code_simp
  have c: "syllables_of demo_env (init ''Cats run. 42 !'') ''Cats'' = 1"
    and r: "syllables_of demo_env (init ''Cats run. 42 !'') ''run'' = 1"
    by code_simp+
  from reading_ease_sum [OF d, of "init ''Cats run. 42 !''"] f a c r
  have "calculate_sentence_reading_ease demo_env (init ''Cats run. 42 !'') = Inr (120.205)"
    by simp
  moreover from reading_ease_sum [OF d, of "init []"] e
  have "calculate_sentence_reading_ease demo_env (init []) = Inr 0"
    by blast
  ultimately show ?thesis using d f a e by simp
qed

text \<open>
  Claim C3: \<^verbatim>\<open>count_syllables\<close> lower-cases the word. If the lower-cased word is not a
  key of the pronouncing dictionary, the result is the number of its characters among
  a, e, i, o, u, y, and no error is raised. If it is a key (of an entry with a first
  pronunciation without an empty phoneme code), the result is the number of phonemes of the first
  pronunciation whose last character is a digit. Every result is a non-negative integer.
\<close>

theorem count_syllables_spec:
  "(p_dict env (lower word) = None \<longrightarrow>
      count_syllables env (init t) word =
        Inr (int (length (filter (\<lambda>c. c \<in> {CHR ''a'', CHR ''e'', CHR ''i'', CHR ''o'', CHR ''u'', CHR ''y''})
                           (lower word))))) \<and>
   (\<forall>prons. p_dict env (lower word) = Some prons \<and> prons \<noteq> [] \<and> [] \<notin> set (hd prons) \<longrightarrow>
      count_syllables env (init t) word =
        Inr (int (length (filter (\<lambda>phone. isdigit_char (last phone)) (hd prons))))) \<and>
   (\<forall>n. count_syllables env (init t) word = Inr n \<longrightarrow> 0 \<le> n)"
  using count_syllables_known [of env word _ "init t"]
        count_syllables_unknown [of env word "init t"]
        count_syllables_nonneg [of env "init t" word]
  by (simp add: init_def)

theorem count_syllables_spec_witness:
  "p_dict demo_env (lower ''Yummy'') = None \<and>
   count_syllables demo_env (init []) ''Yummy'' = Inr 3 \<and>
   p_dict demo_env (lower ''CATS'') = Some [[''K'', ''AE1'', ''T'', ''S'']] \<and>
   count_syllables demo_env (init []) ''CATS'' = Inr 1"
proof -
  have l1: "lower ''Yummy'' = ''yummy''" and l2: "lower ''CATS'' = ''cats''"
    by code_simp+
  have d1: "p_dict demo_env ''yummy'' = None"
    and d2: "p_dict demo_env ''cats'' = Some [[''K'', ''AE1'', ''T'', ''S'']]"
    by (simp_all add: demo_env_def)
  from count_syllables_spec [of demo_env "''Yummy''" "[]"] l1 d1
  have "count_syllables demo_env (init []) ''Yummy'' = Inr 3" by simp
  moreover
  from count_syllables_spec [of demo_env "''CATS''" "[]"] l2 d2
  have "count_syllables demo_env (init []) ''CATS'' = Inr 1"
    by (simp add: isdigit_char_def code_point_def)
  ultimately show ?thesis using l1 l2 d1 d2 by simp
qed

text \<open>
  Claim C4: \<^verbatim>\<open>__lemmatize\<close> lemmatizes the word as a verb; when the result is the word
  itself it returns the lemma of the word as a noun, and otherwise the verb lemma.
\<close>

theorem lemmatize_verb_then_noun:
  "(wn_lemmatize env word ''v'' = word \<longrightarrow> lemmatize env word = wn_lemmatize env word ''n'') \<and>
   (wn_lemmatize env word ''v'' \<noteq> word \<longrightarrow> lemmatize env word = wn_lemmatize env word ''v'')"
  by (simp add: lemmatize_def)

theorem lemmatize_verb_then_noun_witness:
  "wn_lemmatize demo_env ''Cats'' ''v'' = ''Cats'' \<and> lemmatize demo_env ''Cats'' = ''Cat'' \<and>
   wn_lemmatize demo_env ''running'' ''v'' \<noteq> ''running'' \<and>
   lemmatize demo_env ''running'' = ''run''"
  using lemmatize_verb_then_noun [of demo_env "''Cats''"]
        lemmatize_verb_then_noun [of demo_env "''running''"]
  by (simp add: demo_env_def)

text \<open>
  Claim C5: for the empty document, to which the sentence splitter gives no sentence,
  each of the four views yields the empty sequence, with either value of the
  \<^verbatim>\<open>lemmatized\<close> flag; a view has no way to fail.
\<close>

theorem empty_document_views:
  assumes "sent_tokenize env [] = []"
  shows "fst (sents env lemmatized (init [])) = [] \<and>
         fst (tagged_sents env lemmatized (init [])) = [] \<and>
         fst (words env lemmatized (init [])) = [] \<and>
         fst (tagged_words env lemmatized (init [])) = []"
  using assms
  by (simp add: sents_def tagged_sents_def words_def tagged_words_def
      yield_sents_def yield_words_def init_def)

theorem empty_document_views_witness:
  "sent_tokenize demo_env [] = [] \<and>
   fst (sents demo_env True (init [])) = [] \<and>
   fst (tagged_sents demo_env True (init [])) = [] \<and>
   fst (words demo_env True (init [])) = [] \<and>
   fst (tagged_words demo_env True (init [])) = [] \<and>
   fst (sents demo_env False (init [])) = [] \<and>
   fst (tagged_sents demo_env False (init [])) = [] \<and>
   fst (words demo_env False (init [])) = [] \<and>
   fst (tagged_words demo_env False (init [])) = []"
proof -
  have e: "sent_tokenize demo_env [] = []"
    by (simp add: demo_env_def)
  from empty_document_views [OF e, of True] empty_document_views [OF e, of False] e
  show ?thesis by simp
qed

text \<open>
  Claim C6: the number of items \<^verbatim>\<open>words()\<close> yields is the sum of the lengths of the
  sentences \<^verbatim>\<open>sents()\<close> yields, for every document and either value of the flag.
\<close>

theorem words_count_eq_sents_total:
  "length (fst (words env lemmatized self)) =
   sum_list (map length (fst (sents env lemmatized self)))"
  by (simp add: words_def sents_def yield_words_def yield_sents_def length_concat)

text \<open>
  Claim C7: \<^verbatim>\<open>has_peculiar_expression\<close> searches the raw document for the caller's
  pattern with \<^verbatim>\<open>re.IGNORECASE\<close> set. It returns true exactly when the search finds a
  match, false exactly when it finds none, and fails exactly when the engine rejects the
  pattern, with the engine's error.
\<close>

theorem peculiar_expression_search:
  "(has_peculiar_expression env self expression = Inr True \<longleftrightarrow>
      (\<exists>m. re_search env expression (doc_text self) True = Inr (Some m))) \<and>
   (has_peculiar_expression env self expression = Inr False \<longleftrightarrow>
      re_search env expression (doc_text self) True = Inr None) \<and>
   (\<forall>e. has_peculiar_expression env self expression = Inl e \<longleftrightarrow>
      re_search env expression (doc_text self) True = Inl e)"
  by (auto simp: has_peculiar_expression_def split: sum.splits)

theorem peculiar_expression_search_witness:
  "re_search demo_env ''hello'' (doc_text (init ''Well, HELLO there!'')) True = Inr (Some ''hello'') \<and>
   has_peculiar_expression demo_env (init ''Well, HELLO there!'') ''hello'' = Inr True \<and>
   re_search demo_env ''hello'' (doc_text (init ''Goodbye'')) True = Inr None \<and>
   has_peculiar_expression demo_env (init ''Goodbye'') ''hello'' = Inr False \<and>
   re_search demo_env ''hel(lo'' (doc_text (init ''Goodbye'')) True = Inl (PatternError ''hel(lo'') \<and>
   has_peculiar_expression demo_env (init ''Goodbye'') ''hel(lo'' = Inl (PatternError ''hel(lo'')"
proof -
  have a: "re_search demo_env ''hello'' (doc_text (init ''Well, HELLO there!'')) True = Inr (Some ''hello'')"
    by code_simp
  have b: "re_search demo_env ''hello'' (doc_text (init ''Goodbye'')) True = Inr None"
    by code_simp
  have c: "re_search demo_env ''hel(lo'' (doc_text (init ''Goodbye'')) True = Inl (PatternError ''hel(lo'')"
    by code_simp
  from peculiar_expression_search [of demo_env "init ''Well, HELLO there!''" "''hello''"] a
  have "has_peculiar_expression demo_env (init ''Well, HELLO there!'') ''hello'' = Inr True"
    by blast
  moreover from peculiar_expression_search [of demo_env "init ''Goodbye''" "''hello''"] b
  have "has_peculiar_expression demo_env (init ''Goodbye'') ''hello'' = Inr False"
    by blast
  moreover from peculiar_expression_search [of demo_env "init ''Goodbye''" "''hel(lo''"] c
  have "has_peculiar_expression demo_env (init ''Goodbye'') ''hel(lo'' = Inl (PatternError ''hel(lo'')"
    by blast
  ultimately show ?thesis using a b c by blast
qed

text \<open>
  Claim C8: a view leaves the instance as it found it, and called again on the
  instance it left, with the same argument, it yields the same sequence.
\<close>

theorem views_idempotent:
  "snd (sents env l self) = self \<and>
   fst (sents env l (snd (sents env l self))) = fst (sents env l self) \<and>
   snd (tagged_sents env l self) = self \<and>
   fst (tagged_sents env l (snd (tagged_sents env l self))) = fst (tagged_sents env l self) \<and>
   snd (words env l self) = self \<and>
   fst (words env l (snd (words env l self))) = fst (words env l self) \<and>
   snd (tagged_words env l self) = self \<and>
   fst (tagged_words env l (snd (tagged_words env l self))) = fst (tagged_words env l self)"
  by (simp add: sents_def tagged_sents_def words_def tagged_words_def
      yield_sents_def yield_words_def)

text \<open>
  Claim C9: for a document with at least one tagged word and every tag set, the
  lexical density is a value between 0 and 100, whenever the float rounding is monotone
  and leaves 0, 1 and 100 as they are (as rounding to the nearest binary64 value does).
\<close>

theorem lexical_density_bounds:
  assumes "mono (fl env)" and "fl env 0 = 0" and "fl env 1 = 1" and "fl env 100 = 100"
    and "fst (tagged_words env False self) \<noteq> []"
  shows "\<exists>v. calculate_lexical_density_by_tags env self tags_to_search = Inr v \<and>
             0 \<le> v \<and> v \<le> 100"
proof -
  define tw where "tw = fst (tagged_words env False self)"
  define a where "a = sum_list [1::int. (word, tag) \<leftarrow> tw, tag \<in> tags_to_search]"
  define b where "b = int (length tw)"
  define q where "q = fl env (of_int a / of_int b)"
  define p where "p = fl env (q * 100)"
  define r where "r = round_half_even (p * 10 ^ 3)"
  have tws: "tagged_words env False self = (tw, self)"
    by (simp add: tw_def tagged_words_def yield_words_def)
  have b: "0 < b" using assms(5) by (simp add: b_def tw_def)
  have a: "0 \<le> a" "a \<le> b"
    using count_le_length [where tw = tw and tags = tags_to_search]
    by (simp_all add: a_def b_def)
  have "0 \<le> (of_int a / of_int b :: real)" "(of_int a / of_int b :: real) \<le> 1"
    using a b by simp_all
  then have q: "0 \<le> q" "q \<le> 1"
    using monoD [OF assms(1), of 0 "of_int a / of_int b"]
          monoD [OF assms(1), of "of_int a / of_int b" 1] assms(2,3)
    by (simp_all add: q_def)
  then have "0 \<le> q * 100" "q * 100 \<le> 100" by simp_all
  then have p: "0 \<le> p" "p \<le> 100"
    using monoD [OF assms(1), of 0 "q * 100"] monoD [OF assms(1), of "q * 100" 100] assms(2,4)
    by (simp_all add: p_def)
  then have "0 \<le> p * 10 ^ 3" "p * 10 ^ 3 \<le> of_int 100000" by simp_all
  then have r: "0 \<le> r" "r \<le> 100000"
    using round_half_even_nonneg [of "p * 10 ^ 3"] round_half_even_le [of "p * 10 ^ 3" 100000]
    by (simp_all add: r_def)
  then have "0 \<le> (of_int r / 10 ^ 3 :: real)" "(of_int r / 10 ^ 3 :: real) \<le> 100"
    by simp_all
  then have v: "0 \<le> fl env (of_int r / 10 ^ 3)" "fl env (of_int r / 10 ^ 3) \<le> 100"
    using monoD [OF assms(1), of 0 "of_int r / 10 ^ 3"]
          monoD [OF assms(1), of "of_int r / 10 ^ 3" 100] assms(2,4)
    by simp_all
  have "calculate_lexical_density_by_tags env self tags_to_search = Inr (fl env (of_int r / 10 ^ 3))"
    using b
    by (simp add: calculate_lexical_density_by_tags_def tws int_truediv_def py_round_def
        fmul_def float_of_int_def assms(4) r_def p_def q_def a_def b_def)
  with v show ?thesis by blast
qed

theorem lexical_density_bounds_witness:
  "mono (fl demo_env) \<and> fl demo_env 0 = 0 \<and> fl demo_env 1 = 1 \<and> fl demo_env 100 = 100 \<and>
   fst (tagged_words demo_env False (init ''Cats run. 42 !'')) \<noteq> [] \<and>
   (\<exists>v. calculate_lexical_density_by_tags demo_env (init ''Cats run. 42 !'') {''NN''} = Inr v \<and>
        0 \<le> v \<and> v \<le> 100)"
proof -
  have m: "mono (fl demo_env)"
    by (simp add: demo_env_def mono_def)
  have f: "fl demo_env 0 = 0" "fl demo_env 1 = 1" "fl demo_env 100 = 100"
    by (simp_all add: demo_env_def)
  have w: "fst (tagged_words demo_env False (init ''Cats run. 42 !'')) \<noteq> []"
    by code_simp
  from lexical_density_bounds [OF m f w, of "{''NN''}"] m f w show ?thesis by simp
qed

text \<open>
  Claim C10: \<^verbatim>\<open>count_syllables\<close> gives a word and its lower-cased form the same
  result, since lower-casing a lower-cased word changes nothing.
\<close>

theorem count_syllables_case_insensitive:
  "count_syllables env self word = count_syllables env self (lower word)"
  by (simp add: count_syllables_def lower_idem)

end
